theory Spec2Isabelle
  imports Complex_Main "HOL-Library.Multiset"
begin

section \<open>JavaScript strings and truthiness\<close>

text \<open>
  A JavaScript string is a sequence of UTF-16 code units; a code unit is modelled by its
  number. Literals of the source are ASCII and are written with \<open>lit\<close>. (The few emoji
  of the rendered texts are left out of the modelled literals.)
\<close>

type_synonym js_string = "nat list"

definition lit :: "string \<Rightarrow> js_string" where
  "lit s = map of_char s"

text \<open>
  \<open>String.prototype.trim\<close> removes leading and trailing WhiteSpace and LineTerminator
  code points: TAB, LF, VT, FF, CR, SPACE, NBSP, U+1680, U+2000..U+200A, U+2028, U+2029,
  U+202F, U+205F, U+3000 and U+FEFF.
\<close>

definition isWhiteSpace :: "nat \<Rightarrow> bool" where
  "isWhiteSpace c =
     (c = 0x09 \<or> c = 0x0A \<or> c = 0x0B \<or> c = 0x0C \<or> c = 0x0D \<or> c = 0x20 \<or> c = 0xA0
      \<or> c = 0x1680 \<or> (0x2000 \<le> c \<and> c \<le> 0x200A) \<or> c = 0x2028 \<or> c = 0x2029
      \<or> c = 0x202F \<or> c = 0x205F \<or> c = 0x3000 \<or> c = 0xFEFF)"

definition trim :: "js_string \<Rightarrow> js_string" where
  "trim s = rev (dropWhile isWhiteSpace (rev (dropWhile isWhiteSpace s)))"

text \<open>A string is truthy when it is not empty; \<open>undefined\<close> and \<open>null\<close> are \<open>None\<close>.\<close>

definition truthy :: "js_string \<Rightarrow> bool" where
  "truthy s = (s \<noteq> [])"

definition truthy_opt :: "js_string option \<Rightarrow> bool" where
  "truthy_opt v = (case v of None \<Rightarrow> False | Some s \<Rightarrow> truthy s)"

text \<open>\<open>s || undefined\<close> on a string.\<close>

definition or_undefined :: "js_string \<Rightarrow> js_string option" where
  "or_undefined s = (if truthy s then Some s else None)"

text \<open>\<open>v || undefined\<close> on an optional string.\<close>

definition opt_or_undefined :: "js_string option \<Rightarrow> js_string option" where
  "opt_or_undefined v = (case v of None \<Rightarrow> None | Some s \<Rightarrow> or_undefined s)"

text \<open>A string all of whose code units are white space (the empty string included).\<close>

definition whitespace_only :: "js_string \<Rightarrow> bool" where
  "whitespace_only s = list_all isWhiteSpace s"


section \<open>The data model of \<open>types.ts\<close>\<close>

text \<open>A \<open>number\<close> is modelled as a real: the code only compares and displays numbers.\<close>

datatype Severity = mild | moderate | severe

datatype UrgencyLevel = immediate | urgent_level

datatype Probability = low | medium | high

datatype TriageCategory = emergency | urgent | standard

datatype FacilityType = government | private_facility | ngo | local_facility

record Symptom =
  name :: js_string
  severity :: Severity
  duration :: "js_string option"
  associated_symptoms :: "js_string list option"

record RedFlag =
  flag_type :: js_string
  description :: js_string
  urgency_level :: UrgencyLevel
  action_required :: js_string

record PotentialRisk =
  condition :: js_string
  probability :: Probability
  specialty_needed :: js_string

record TriageResult =
  chief_complaint :: js_string
  symptoms :: "Symptom list"
  urgency_score :: real
  red_flags :: "RedFlag list"
  potential_risks :: "PotentialRisk list"
  recommended_specialty :: js_string
  triage_category :: TriageCategory
  emergency_detected :: bool
  action_required :: js_string
  timestamp :: js_string

record Coordinates =
  latitude :: real
  longitude :: real

record Facility =
  name :: js_string
  address :: js_string
  distance_km :: real
  facility_type :: FacilityType
  services :: "js_string list"
  specialty_match :: js_string
  map_link :: js_string
  contact :: "js_string option"
  coordinates :: Coordinates


section \<open>The Results view\<close>

definition getUrgencyColor :: "real \<Rightarrow> string" where
  "getUrgencyColor score =
     (if score \<ge> 9 then ''text-red-600 bg-red-100''
      else if score \<ge> 7 then ''text-yellow-600 bg-yellow-100''
      else ''text-green-600 bg-green-100'')"

definition getUrgencyText :: "real \<Rightarrow> string" where
  "getUrgencyText score =
     (if score \<ge> 9 then ''IMMEDIATE''
      else if score \<ge> 7 then ''URGENT''
      else ''STANDARD'')"

text \<open>The class of the probability badge of a potential risk.\<close>

definition probabilityClass :: "Probability \<Rightarrow> string" where
  "probabilityClass p =
     (if p = high then ''bg-red-100 text-red-800''
      else if p = medium then ''bg-yellow-100 text-yellow-800''
      else ''bg-green-100 text-green-800'')"

text \<open>What one facility card of the Results view shows.\<close>

record ResultsFacilityCard =
  card_key :: nat
  card_name :: js_string
  card_distance_km :: real
  card_address :: js_string
  card_specialty_match :: js_string
  card_facility_type :: FacilityType
  card_contact :: "js_string option"

definition resultsFacilityCard :: "nat \<Rightarrow> Facility \<Rightarrow> ResultsFacilityCard" where
  "resultsFacilityCard index facility =
     \<lparr>card_key = index,
      card_name = Facility.name facility,
      card_distance_km = distance_km facility,
      card_address = address facility,
      card_specialty_match = specialty_match facility,
      card_facility_type = facility_type facility,
      card_contact = opt_or_undefined (contact facility)\<rparr>"

text \<open>The cards of the page, in the order of the JSX.\<close>

datatype results_section =
    HeaderCard string string real js_string bool js_string
  | RedFlagsCard "(nat \<times> RedFlag) list"
  | PotentialRisksCard "(nat \<times> PotentialRisk \<times> string) list"
  | RecommendationsCard js_string
  | EmergencyAlert string "string list"
  | FacilitiesCard "ResultsFacilityCard list"

datatype results_view =
    AnalyzingSymptoms
  | AnalysisError js_string
  | NoResults
  | TriageResults "results_section list"

definition emergencyAlert :: results_section where
  "emergencyAlert =
     EmergencyAlert ''EMERGENCY DETECTED''
       [''CALL 108 IMMEDIATELY'', ''Do NOT drive yourself'',
        ''Call emergency services (108)'', ''Proceed to nearest Emergency Room'']"

definition resultsPage :: "TriageResult \<Rightarrow> Facility list \<Rightarrow> results_section list" where
  "resultsPage triageResult facilities =
     [HeaderCard (getUrgencyColor (urgency_score triageResult))
                 (getUrgencyText (urgency_score triageResult))
                 (urgency_score triageResult)
                 (recommended_specialty triageResult)
                 (emergency_detected triageResult)
                 (chief_complaint triageResult)]
     @ (if length (red_flags triageResult) > 0
        then [RedFlagsCard (enumerate 0 (red_flags triageResult))] else [])
     @ (if length (potential_risks triageResult) > 0
        then [PotentialRisksCard
                (map (\<lambda>(index, risk). (index, risk, probabilityClass (probability risk)))
                     (enumerate 0 (potential_risks triageResult)))]
        else [])
     @ [RecommendationsCard (TriageResult.action_required triageResult)]
     @ (if emergency_detected triageResult then [emergencyAlert] else [])
     @ (if length facilities > 0
        then [FacilitiesCard
                (map (\<lambda>(index, facility). resultsFacilityCard index facility)
                     (enumerate 0 (take 3 facilities)))]
        else [])"

definition Results ::
  "TriageResult option \<Rightarrow> Facility list \<Rightarrow> bool \<Rightarrow> js_string option \<Rightarrow> results_view" where
  "Results triageResult facilities loading error =
     (if loading then AnalyzingSymptoms
      else if truthy_opt error then AnalysisError (case error of Some e \<Rightarrow> e | None \<Rightarrow> [])
      else case triageResult of
             None \<Rightarrow> NoResults
           | Some r \<Rightarrow> TriageResults (resultsPage r facilities))"

text \<open>Reading a rendered view: its cards, its urgency badge, its alert, its facility cards.\<close>

definition sections_of :: "results_view \<Rightarrow> results_section list" where
  "sections_of v = (case v of TriageResults ss \<Rightarrow> ss | _ \<Rightarrow> [])"

fun badge_of_section :: "results_section \<Rightarrow> (string \<times> string) list" where
  "badge_of_section (HeaderCard cls txt score spec em chief) = [(cls, txt)]"
| "badge_of_section _ = []"

definition urgency_badges :: "results_view \<Rightarrow> (string \<times> string) list" where
  "urgency_badges v = concat (map badge_of_section (sections_of v))"

fun cards_of_section :: "results_section \<Rightarrow> ResultsFacilityCard list" where
  "cards_of_section (FacilitiesCard cs) = cs"
| "cards_of_section _ = []"

definition facility_cards :: "results_view \<Rightarrow> ResultsFacilityCard list" where
  "facility_cards v = concat (map cards_of_section (sections_of v))"

fun flags_of_section :: "results_section \<Rightarrow> RedFlag list" where
  "flags_of_section (RedFlagsCard fs) = map snd fs"
| "flags_of_section _ = []"

definition red_flag_entries :: "results_view \<Rightarrow> RedFlag list" where
  "red_flag_entries v = concat (map flags_of_section (sections_of v))"

definition shows_emergency_alert :: "results_view \<Rightarrow> bool" where
  "shows_emergency_alert v = (emergencyAlert \<in> set (sections_of v))"

text \<open>The colour family a Tailwind class list of a badge stands for.\<close>

datatype colour = Red | Yellow | Green

definition colour_of_class :: "string \<Rightarrow> colour option" where
  "colour_of_class c =
     (if c = ''text-red-600 bg-red-100'' \<or> c = ''bg-red-100 text-red-800'' then Some Red
      else if c = ''text-yellow-600 bg-yellow-100'' \<or> c = ''bg-yellow-100 text-yellow-800''
      then Some Yellow
      else if c = ''text-green-600 bg-green-100'' \<or> c = ''bg-green-100 text-green-800''
      then Some Green
      else None)"


section \<open>The fetch API\<close>

text \<open>
  A request body is the object given to \<open>JSON.stringify\<close>: the members in source order,
  a member whose value is \<open>undefined\<close> left out, a number that is \<open>NaN\<close> written as null.
\<close>

datatype json = JNull | JString js_string | JNumber real | JObject "(string \<times> json) list"

datatype http_method = GET | POST

record request =
  url :: string
  req_method :: http_method
  headers :: "(string \<times> string) list"
  body :: json

definition optional_member :: "string \<Rightarrow> js_string option \<Rightarrow> (string \<times> json) list" where
  "optional_member key v = (case v of None \<Rightarrow> [] | Some s \<Rightarrow> [(key, JString s)])"

text \<open>
  What is thrown: an \<open>Error\<close> object with its message, or some other value. \<open>fetch\<close>
  either rejects, or resolves to a response with its \<open>ok\<close> flag, whose \<open>json()\<close> in turn
  rejects or yields the parsed body. The parsed bodies are taken at the types the
  front end stores them at.
\<close>

datatype thrown = Error js_string | NonError

datatype 'a fetch_result = Rejected thrown | Response bool "thrown + 'a"

record backend =
  triage_text :: "request \<Rightarrow> TriageResult fetch_result"
  facilities_endpoint :: "request \<Rightarrow> Facility list fetch_result"


section \<open>The application state and \<open>handleTriageSubmit\<close>\<close>

record App_state =
  triageResult :: "TriageResult option"
  facilities :: "Facility list"
  loading :: bool
  error :: "js_string option"

definition API_BASE_URL :: string where
  "API_BASE_URL = ''http://localhost:8000''"

definition json_headers :: "(string \<times> string) list" where
  "json_headers = [(''Content-Type'', ''application/json'')]"

text \<open>The \<open>catch\<close> block: \<open>err instanceof Error ? err.message : 'An error occurred'\<close>.\<close>

definition catch_block :: "thrown \<Rightarrow> App_state \<Rightarrow> App_state" where
  "catch_block err st =
     st\<lparr>error := Some (case err of Error message \<Rightarrow> message
                                | NonError \<Rightarrow> lit ''An error occurred'')\<rparr>"

definition triage_request :: "js_string \<Rightarrow> js_string option \<Rightarrow> request" where
  "triage_request symptomText location =
     \<lparr>url = API_BASE_URL @ ''/triage/text'', req_method = POST, headers = json_headers,
      body = JObject ([(''symptoms'', JString symptomText)]
                      @ optional_member ''location'' (opt_or_undefined location))\<rparr>"

definition facilities_request :: "js_string \<Rightarrow> request" where
  "facilities_request location =
     \<lparr>url = API_BASE_URL @ ''/facilities'', req_method = POST, headers = json_headers,
      body = JObject [(''location'', JString location)]\<rparr>"

text \<open>
  The body of \<open>if (location) { ... }\<close>: the state after it and the requests issued. A response
  that is not ok is ignored; a rejection goes to the \<open>catch\<close> block.
\<close>

definition fetch_facilities :: "backend \<Rightarrow> js_string \<Rightarrow> App_state \<Rightarrow> App_state \<times> request list" where
  "fetch_facilities be location st =
     (case facilities_endpoint be (facilities_request location) of
        Rejected err \<Rightarrow> (catch_block err st, [facilities_request location])
      | Response ok parsed \<Rightarrow>
          if ok then
            (case parsed of
               Inl err \<Rightarrow> (catch_block err st, [facilities_request location])
             | Inr facilitiesData \<Rightarrow>
                 (st\<lparr>facilities := facilitiesData\<rparr>, [facilities_request location]))
          else (st, [facilities_request location]))"

text \<open>
  The \<open>try\<close> block of \<open>handleTriageSubmit\<close>, after \<open>setLoading(true); setError(null)\<close>.
\<close>

definition try_block ::
  "backend \<Rightarrow> App_state \<Rightarrow> js_string \<Rightarrow> js_string option \<Rightarrow> App_state \<times> request list" where
  "try_block be st symptomText location =
     (case triage_text be (triage_request symptomText location) of
        Rejected err \<Rightarrow> (catch_block err st, [triage_request symptomText location])
      | Response ok parsed \<Rightarrow>
          if \<not> ok
          then (catch_block (Error (lit ''Failed to analyze symptoms'')) st,
                [triage_request symptomText location])
          else
            (case parsed of
               Inl err \<Rightarrow> (catch_block err st, [triage_request symptomText location])
             | Inr result \<Rightarrow>
                 (case opt_or_undefined location of
                    None \<Rightarrow> (st\<lparr>triageResult := Some result\<rparr>,
                             [triage_request symptomText location])
                  | Some l \<Rightarrow>
                      (case fetch_facilities be l (st\<lparr>triageResult := Some result\<rparr>) of
                         (st', reqs) \<Rightarrow> (st', triage_request symptomText location # reqs)))))"

text \<open>
  The handler is asynchronous; the model gives the state once its promise has settled, and
  the requests it issued, in order.
\<close>

definition handleTriageSubmit ::
  "backend \<Rightarrow> App_state \<Rightarrow> js_string \<Rightarrow> js_string option \<Rightarrow> App_state \<times> request list" where
  "handleTriageSubmit be st symptomText location =
     (case try_block be (st\<lparr>loading := True, error := None\<rparr>) symptomText location of
        (st', reqs) \<Rightarrow> (st'\<lparr>loading := False\<rparr>, reqs))"


section \<open>The forms\<close>

text \<open>What a form's \<open>handleSubmit\<close> does: the calls of its \<open>onSubmit\<close> prop and of \<open>navigate\<close>.\<close>

datatype form_effect = OnSubmit js_string "js_string option" | Navigate string

definition TriageForm_handleSubmit :: "js_string \<Rightarrow> js_string \<Rightarrow> form_effect list" where
  "TriageForm_handleSubmit symptomText location =
     (if truthy (trim symptomText)
      then [OnSubmit (trim symptomText) (or_undefined (trim location)), Navigate ''/results'']
      else [])"

definition Dashboard_handleSubmit :: "js_string \<Rightarrow> js_string \<Rightarrow> form_effect list" where
  "Dashboard_handleSubmit symptomText location =
     (if truthy (trim symptomText)
      then [OnSubmit (trim symptomText) (or_undefined (trim location))]
      else [])"

text \<open>\<open>App\<close> passes \<open>handleTriageSubmit\<close> as the \<open>onSubmit\<close> prop of both forms.\<close>

fun run_effect ::
  "backend \<Rightarrow> form_effect \<Rightarrow> App_state \<times> request list \<Rightarrow> App_state \<times> request list" where
  "run_effect be (OnSubmit symptomText location) (st, reqs) =
     (case handleTriageSubmit be st symptomText location of (st', reqs') \<Rightarrow> (st', reqs @ reqs'))"
| "run_effect be (Navigate path) (st, reqs) = (st, reqs)"

definition run_form :: "backend \<Rightarrow> App_state \<Rightarrow> form_effect list \<Rightarrow> App_state \<times> request list" where
  "run_form be st effects = fold (run_effect be) effects (st, [])"


section \<open>The \<open>AroviaHealthDesk\<close> component\<close>

record Desk_coordinates =
  desk_latitude :: js_string
  desk_longitude :: js_string

record Desk_state =
  desk_loading :: bool
  desk_result :: "TriageResult option"
  desk_error :: "js_string option"
  textSymptoms :: js_string
  desk_location :: js_string
  desk_coordinates :: Desk_coordinates

definition json_number :: "real option \<Rightarrow> json" where
  "json_number v = (case v of None \<Rightarrow> JNull | Some x \<Rightarrow> JNumber x)"

text \<open>
  The payload of \<open>handleTextTriage\<close>; \<open>parseFloat\<close> is a parameter (\<open>None\<close> is \<open>NaN\<close>).
  The symptoms are sent as typed, not trimmed.
\<close>

definition desk_payload :: "(js_string \<Rightarrow> real option) \<Rightarrow> Desk_state \<Rightarrow> json" where
  "desk_payload parseFloat st =
     JObject ([(''symptoms'', JString (textSymptoms st))]
              @ optional_member ''location'' (or_undefined (desk_location st))
              @ (if truthy (desk_latitude (desk_coordinates st))
                    \<and> truthy (desk_longitude (desk_coordinates st))
                 then [(''coordinates'',
                        JObject [(''latitude'',
                                  json_number (parseFloat (desk_latitude (desk_coordinates st)))),
                                 (''longitude'',
                                  json_number (parseFloat (desk_longitude (desk_coordinates st))))])]
                 else []))"

definition desk_request :: "(js_string \<Rightarrow> real option) \<Rightarrow> Desk_state \<Rightarrow> request" where
  "desk_request parseFloat st =
     \<lparr>url = ''http://localhost:8000'' @ ''/triage/text'', req_method = POST,
      headers = json_headers, body = desk_payload parseFloat st\<rparr>"

text \<open>Its \<open>catch\<close> block is \<open>setError(err.message)\<close>.\<close>

definition desk_catch :: "thrown \<Rightarrow> Desk_state \<Rightarrow> Desk_state" where
  "desk_catch err st =
     st\<lparr>desk_error := (case err of Error message \<Rightarrow> Some message | NonError \<Rightarrow> None)\<rparr>"

definition handleTextTriage ::
  "(js_string \<Rightarrow> real option) \<Rightarrow> backend \<Rightarrow> Desk_state \<Rightarrow> Desk_state \<times> request list" where
  "handleTextTriage parseFloat be st =
     (if \<not> truthy (trim (textSymptoms st))
      then (st\<lparr>desk_error := Some (lit ''Please enter your symptoms'')\<rparr>, [])
      else
        (let st1 = st\<lparr>desk_loading := True, desk_error := None, desk_result := None\<rparr>;
             st2 = (case triage_text be (desk_request parseFloat st) of
                      Rejected err \<Rightarrow> desk_catch err st1
                    | Response ok parsed \<Rightarrow>
                        if \<not> ok then desk_catch (Error (lit ''Failed to analyze symptoms'')) st1
                        else (case parsed of
                                Inl err \<Rightarrow> desk_catch err st1
                              | Inr data \<Rightarrow> st1\<lparr>desk_result := Some data\<rparr>))
         in (st2\<lparr>desk_loading := False\<rparr>, [desk_request parseFloat st])))"

text \<open>The class of the urgency badge in \<open>renderTriageResult\<close>.\<close>

definition deskUrgencyBadgeClass :: "real \<Rightarrow> string" where
  "deskUrgencyBadgeClass score =
     (if score \<ge> 8 then ''bg-red-100 text-red-800''
      else if score \<ge> 5 then ''bg-yellow-100 text-yellow-800''
      else ''bg-green-100 text-green-800'')"

definition renderTriageResult_badge :: "TriageResult option \<Rightarrow> (string \<times> real) option" where
  "renderTriageResult_badge result =
     (case result of
        None \<Rightarrow> None
      | Some r \<Rightarrow> Some (deskUrgencyBadgeClass (urgency_score r), urgency_score r))"


section \<open>The Facilities page\<close>

record Facilities_state =
  searchLocation :: js_string
  filteredFacilities :: "Facility list"

text \<open>The effect that copies the \<open>facilities\<close> prop into the local state when it changes.\<close>

definition Facilities_useEffect :: "Facility list \<Rightarrow> Facilities_state \<Rightarrow> Facilities_state" where
  "Facilities_useEffect facilitiesProp st = st\<lparr>filteredFacilities := facilitiesProp\<rparr>"

definition search_request :: "js_string \<Rightarrow> request" where
  "search_request location =
     \<lparr>url = ''http://localhost:8000/facilities'', req_method = POST, headers = json_headers,
      body = JObject [(''location'', JString location)]\<rparr>"

text \<open>
  \<open>handleSearch\<close>: a rejection is logged to the console, a response that is not ok is
  ignored; in both cases the list stays.
\<close>

definition handleSearch :: "backend \<Rightarrow> Facilities_state \<Rightarrow> Facilities_state \<times> request list" where
  "handleSearch be st =
     (if \<not> truthy (trim (searchLocation st)) then (st, [])
      else
        (case facilities_endpoint be (search_request (searchLocation st)) of
           Rejected err \<Rightarrow> (st, [search_request (searchLocation st)])
         | Response ok parsed \<Rightarrow>
             if ok then
               (case parsed of
                  Inl err \<Rightarrow> (st, [search_request (searchLocation st)])
                | Inr data \<Rightarrow>
                    (st\<lparr>filteredFacilities := data\<rparr>, [search_request (searchLocation st)]))
             else (st, [search_request (searchLocation st)])))"

definition getFacilityTypeColor :: "FacilityType \<Rightarrow> string" where
  "getFacilityTypeColor type =
     (case type of
        government \<Rightarrow> ''bg-blue-100 text-blue-800''
      | private_facility \<Rightarrow> ''bg-green-100 text-green-800''
      | ngo \<Rightarrow> ''bg-yellow-100 text-yellow-800''
      | local_facility \<Rightarrow> ''bg-gray-100 text-gray-800'')"

text \<open>
  What one card of the list shows: the \<open>Recommended\<close> badge on index 0, the priority
  \<open>index + 1\<close>, the services when there are some, the contact when there is one.
\<close>

record FacilityCard =
  fc_key :: nat
  fc_name :: js_string
  fc_type_class :: string
  fc_facility_type :: FacilityType
  fc_recommended :: bool
  fc_address :: js_string
  fc_distance_km :: real
  fc_specialty_match :: js_string
  fc_priority :: nat
  fc_services :: "js_string list"
  fc_contact :: "js_string option"
  fc_map_link :: js_string

definition facilityCard :: "nat \<Rightarrow> Facility \<Rightarrow> FacilityCard" where
  "facilityCard index facility =
     \<lparr>fc_key = index,
      fc_name = Facility.name facility,
      fc_type_class = getFacilityTypeColor (facility_type facility),
      fc_facility_type = facility_type facility,
      fc_recommended = (index = 0),
      fc_address = address facility,
      fc_distance_km = distance_km facility,
      fc_specialty_match = specialty_match facility,
      fc_priority = index + 1,
      fc_services = services facility,
      fc_contact = opt_or_undefined (contact facility),
      fc_map_link = map_link facility\<rparr>"

datatype facilities_view =
    FindingFacilities
  | FacilitiesFound nat string "FacilityCard list"
  | NoFacilitiesFound

definition Facilities :: "Facilities_state \<Rightarrow> bool \<Rightarrow> facilities_view" where
  "Facilities st isLoading =
     (if isLoading then FindingFacilities
      else if length (filteredFacilities st) > 0
      then FacilitiesFound (length (filteredFacilities st)) ''Sorted by distance''
             (map (\<lambda>(index, facility). facilityCard index facility)
                  (enumerate 0 (filteredFacilities st)))
      else NoFacilitiesFound)"

definition displayed_cards :: "facilities_view \<Rightarrow> FacilityCard list" where
  "displayed_cards v = (case v of FacilitiesFound n label cards \<Rightarrow> cards | _ \<Rightarrow> [])"


section \<open>The backend, as far as the specification describes it\<close>

text \<open>
  The table of emergency phrases, as the safety section of the README gives it.
\<close>

definition EMERGENCY_KEYWORDS :: "(string \<times> string list) list" where
  "EMERGENCY_KEYWORDS =
     [(''cardiac'',
       [''chest pain'', ''heart attack'', ''crushing chest pressure'',
        ''pain radiating to arm/jaw'', ''severe palpitations'']),
      (''neurological'',
       [''stroke'', ''face drooping'', ''arm weakness'', ''slurred speech'',
        ''sudden severe headache'', ''loss of consciousness'', ''seizure'']),
      (''respiratory'',
       [''can't breathe'', ''choking'', ''severe shortness of breath'',
        ''blue lips'', ''gasping for air'']),
      (''trauma'',
       [''severe bleeding'', ''head injury'', ''broken bone visible'',
        ''penetrating wound'', ''unconscious after injury'']),
      (''mental_health'',
       [''suicide'', ''want to die'', ''self-harm'', ''kill myself'']),
      (''other'',
       [''severe abdominal pain'', ''pregnancy + bleeding'',
        ''high fever in infant'', ''allergic reaction + swelling''])]"

definition emergency_phrases :: "string list" where
  "emergency_phrases = concat (map snd EMERGENCY_KEYWORDS)"

fun starts_with :: "'a list \<Rightarrow> 'a list \<Rightarrow> bool" where
  "starts_with [] s = True"
| "starts_with (p # ps) [] = False"
| "starts_with (p # ps) (c # cs) = (p = c \<and> starts_with ps cs)"

fun contains_phrase :: "'a list \<Rightarrow> 'a list \<Rightarrow> bool" where
  "contains_phrase p [] = (p = [])"
| "contains_phrase p (c # cs) = (starts_with p (c # cs) \<or> contains_phrase p cs)"

text \<open>
  Modelled from the spec: the keyword scan of the backend's triage agent
  (\<open>agents/triage_agent.py\<close>, which is not among the sources): a scan of the symptom text
  for each phrase of the fixed table.
\<close>

definition detect_emergency :: "js_string \<Rightarrow> bool" where
  "detect_emergency text = list_ex (\<lambda>phrase. contains_phrase (lit phrase) text) emergency_phrases"

text \<open>
  Modelled from the spec: the emergency override of the backend's triage agent
  (\<open>agents/triage_agent.py\<close>, which is not among the sources): when any phrase is found,
  the urgency is 10 and the result is escalated as an emergency, whatever the hosted
  model answered; otherwise the model's answer stands.
\<close>

definition emergency_override :: "js_string \<Rightarrow> TriageResult \<Rightarrow> TriageResult" where
  "emergency_override text r =
     (if detect_emergency text then r\<lparr>urgency_score := 10, emergency_detected := True\<rparr> else r)"

text \<open>
  Modelled from the spec: the text triage of the backend (\<open>agents/triage_agent.py\<close>, which
  is not among the sources): the answer of the hosted model, a parameter here, with the
  keyword override applied.
\<close>

definition triage_backend :: "(js_string \<Rightarrow> TriageResult) \<Rightarrow> js_string \<Rightarrow> TriageResult" where
  "triage_backend model text = emergency_override text (model text)"

text \<open>
  Modelled from the spec: the facility search of the backend
  (\<open>utils/facility_matcher.py\<close>, which is not among the sources): the facilities the mapping
  service found, a parameter here, sorted by distance.
\<close>

definition facility_search :: "Facility list \<Rightarrow> Facility list" where
  "facility_search found = sort_key distance_km found"


section \<open>Reading an outcome\<close>

text \<open>Whether a request to the facilities endpoint is among the requests issued.\<close>

definition facilities_requested :: "request list \<Rightarrow> bool" where
  "facilities_requested reqs = list_ex (\<lambda>rq. url rq = ''http://localhost:8000/facilities'') reqs"

text \<open>The triage request got an ok response whose body could be parsed.\<close>

definition triage_succeeded :: "backend \<Rightarrow> js_string \<Rightarrow> js_string option \<Rightarrow> bool" where
  "triage_succeeded be symptomText location =
     (case triage_text be (triage_request symptomText location) of
        Rejected err \<Rightarrow> False
      | Response ok parsed \<Rightarrow> ok \<and> (case parsed of Inl err \<Rightarrow> False | Inr result \<Rightarrow> True))"

text \<open>The cards the Facilities page shows once a search has settled.\<close>

definition cards_after_search :: "backend \<Rightarrow> Facilities_state \<Rightarrow> FacilityCard list" where
  "cards_after_search be st = displayed_cards (Facilities (fst (handleSearch be st)) False)"

text \<open>A backend whose facilities endpoint runs the facility search on what the map service found.\<close>

definition searching_backend :: "Facility list \<Rightarrow> backend" where
  "searching_backend found =
     \<lparr>triage_text = (\<lambda>rq. Rejected NonError),
      facilities_endpoint = (\<lambda>rq. Response True (Inr (facility_search found)))\<rparr>"


section \<open>Concrete inputs\<close>

definition urgent_flag :: RedFlag where
  "urgent_flag =
     \<lparr>flag_type = lit ''fever'', description = lit ''high fever for three days'',
      urgency_level = urgent_level, action_required = lit ''see a doctor today''\<rparr>"

definition fever_result :: TriageResult where
  "fever_result =
     \<lparr>chief_complaint = lit ''fever and cough'', symptoms = [], urgency_score = 8,
      red_flags = [urgent_flag], potential_risks = [],
      recommended_specialty = lit ''General Medicine'', triage_category = urgent,
      emergency_detected = False, action_required = lit ''visit a clinic within 24 hours'',
      timestamp = lit ''2024-01-01T00:00:00''\<rparr>"

definition clinic :: "string \<Rightarrow> real \<Rightarrow> Facility" where
  "clinic n d =
     \<lparr>name = lit n, address = lit ''Main Road'', distance_km = d, facility_type = government,
      services = [], specialty_match = lit ''General Medicine'', map_link = lit ''https://osm.org'',
      contact = None, coordinates = \<lparr>latitude = 19, longitude = 72\<rparr>\<rparr>"

definition four_clinics :: "Facility list" where
  "four_clinics = [clinic ''A'' 4, clinic ''B'' 1, clinic ''C'' 3, clinic ''D'' 2]"

definition initial_state :: App_state where
  "initial_state = \<lparr>triageResult = None, facilities = [], loading = False, error = None\<rparr>"

text \<open>A backend that answers every triage request and every facilities request.\<close>

definition answering_backend :: backend where
  "answering_backend =
     \<lparr>triage_text = (\<lambda>rq. Response True (Inr fever_result)),
      facilities_endpoint = (\<lambda>rq. Response True (Inr four_clinics))\<rparr>"

text \<open>A backend whose triage endpoint answers with an error status.\<close>

definition failing_backend :: backend where
  "failing_backend =
     \<lparr>triage_text = (\<lambda>rq. Response False (Inl (Error (lit ''Internal Server Error'')))),
      facilities_endpoint = (\<lambda>rq. Response True (Inr four_clinics))\<rparr>"

definition blank_desk :: Desk_state where
  "blank_desk =
     \<lparr>desk_loading = False, desk_result = Some fever_result, desk_error = None,
      textSymptoms = lit ''   '', desk_location = [],
      desk_coordinates = \<lparr>desk_latitude = [], desk_longitude = []\<rparr>\<rparr>"


section \<open>Lemmas on strings\<close>

lemma list_all_dropWhile: "list_all P (dropWhile P xs) \<longleftrightarrow> list_all P xs"
  by (induction xs) auto

lemma dropWhile_Nil_iff: "dropWhile P xs = [] \<longleftrightarrow> list_all P xs"
  by (induction xs) auto

lemma trim_Nil_iff: "trim s = [] \<longleftrightarrow> whitespace_only s"
proof -
  have "trim s = [] \<longleftrightarrow> dropWhile isWhiteSpace (rev (dropWhile isWhiteSpace s)) = []"
    by (simp add: trim_def)
  also have "\<dots> \<longleftrightarrow> list_all isWhiteSpace (rev (dropWhile isWhiteSpace s))"
    by (rule dropWhile_Nil_iff)
  also have "\<dots> \<longleftrightarrow> list_all isWhiteSpace (dropWhile isWhiteSpace s)"
    by (simp add: list_all_iff)
  also have "\<dots> \<longleftrightarrow> list_all isWhiteSpace s"
    by (rule list_all_dropWhile)
  finally show ?thesis by (simp add: whitespace_only_def)
qed

lemma starts_with_append: "starts_with p (p @ post)"
  by (induction p) auto

lemma contains_phrase_here: "contains_phrase p (p @ post)"
  by (cases "p @ post") (use starts_with_append [of p post] in auto)

lemma contains_phrase_append: "contains_phrase p (pre @ p @ post)"
  by (induction pre) (auto simp: contains_phrase_here)

lemma starts_with_split: "starts_with p s \<Longrightarrow> \<exists>post. s = p @ post"
  by (induction p s rule: starts_with.induct) auto

lemma contains_phrase_split: "contains_phrase p s \<Longrightarrow> \<exists>pre post. s = pre @ p @ post"
proof (induction s)
  case Nil
  then show ?case by simp
next
  case (Cons c cs)
  show ?case
  proof (cases "starts_with p (c # cs)")
    case True
    then obtain post where "c # cs = p @ post" using starts_with_split by blast
    then have "c # cs = [] @ p @ post" by simp
    then show ?thesis by blast
  next
    case False
    with Cons.prems have "contains_phrase p cs" by simp
    then obtain pre post where "cs = pre @ p @ post" using Cons.IH by blast
    then have "c # cs = (c # pre) @ p @ post" by simp
    then show ?thesis by blast
  qed
qed

text \<open>The scan finds a phrase exactly when the text contains it.\<close>

lemma contains_phrase_iff: "contains_phrase p s \<longleftrightarrow> (\<exists>pre post. s = pre @ p @ post)"
  using contains_phrase_split contains_phrase_append by blast


section \<open>Emergency keywords\<close>

lemma chest_pain_listed: "''chest pain'' \<in> set emergency_phrases"
  by (simp add: emergency_phrases_def EMERGENCY_KEYWORDS_def)

text \<open>
  Claim C1. Whenever the symptom text contains a phrase of the emergency keyword table, of
  whatever category, the triage result produced for it has urgency score 10 and is
  escalated: it is flagged as an emergency, so that the Results view shows the alert that
  tells the patient to call 108. This holds whatever the hosted model answered.
\<close>

theorem emergency_keyword_override:
  assumes "phrase \<in> set emergency_phrases" and "text = pre @ lit phrase @ post"
  shows "urgency_score (triage_backend model text) = 10
         \<and> emergency_detected (triage_backend model text)
         \<and> shows_emergency_alert (Results (Some (triage_backend model text)) facs False None)"
proof -
  have "detect_emergency text"
    unfolding detect_emergency_def list_ex_iff using assms contains_phrase_append by blast
  then show ?thesis
    by (simp add: triage_backend_def emergency_override_def shows_emergency_alert_def
        Results_def sections_of_def resultsPage_def truthy_opt_def)
qed

theorem emergency_keyword_override_witness:
  "urgency_score (triage_backend (\<lambda>t. fever_result) (lit ''I have chest pain since noon'')) = 10
   \<and> emergency_detected (triage_backend (\<lambda>t. fever_result) (lit ''I have chest pain since noon''))
   \<and> shows_emergency_alert
        (Results (Some (triage_backend (\<lambda>t. fever_result) (lit ''I have chest pain since noon'')))
           [] False None)"
proof -
  have "lit ''I have chest pain since noon''
        = lit ''I have '' @ lit ''chest pain'' @ lit '' since noon''"
    by (simp add: lit_def)
  from emergency_keyword_override [OF chest_pain_listed this] show ?thesis .
qed


section \<open>The urgency label\<close>

text \<open>
  Claim C3. The urgency label of the Results view depends on the urgency score only: a score
  of 9 or more is labelled IMMEDIATE in red, a score from 7 up to (not including) 9, so 7
  and 8, URGENT in yellow, and every lower score STANDARD in green; the badge of the page
  shown for a result is the one of its score.
\<close>

theorem urgency_label_by_score:
  "(9 \<le> s \<longrightarrow> getUrgencyText s = ''IMMEDIATE'' \<and> colour_of_class (getUrgencyColor s) = Some Red)
   \<and> (7 \<le> s \<and> s < 9 \<longrightarrow> getUrgencyText s = ''URGENT''
         \<and> colour_of_class (getUrgencyColor s) = Some Yellow)
   \<and> (s < 7 \<longrightarrow> getUrgencyText s = ''STANDARD''
         \<and> colour_of_class (getUrgencyColor s) = Some Green)
   \<and> (urgency_score r = s \<longrightarrow>
        urgency_badges (Results (Some r) facs False None) = [(getUrgencyColor s, getUrgencyText s)])"
  by (simp add: getUrgencyText_def getUrgencyColor_def colour_of_class_def urgency_badges_def
      Results_def sections_of_def resultsPage_def truthy_opt_def emergencyAlert_def)

theorem urgency_label_by_score_witness:
  "getUrgencyText 10 = ''IMMEDIATE'' \<and> getUrgencyText 8 = ''URGENT'' \<and> getUrgencyText 7 = ''URGENT''
   \<and> getUrgencyText 6 = ''STANDARD''
   \<and> urgency_badges (Results (Some fever_result) [] False None)
       = [(''text-yellow-600 bg-yellow-100'', ''URGENT'')]"
proof -
  have s: "urgency_score fever_result = 8" by (simp add: fever_result_def)
  show ?thesis
    using urgency_label_by_score [of 10 fever_result "[]"]
      urgency_label_by_score [of 8 fever_result "[]"]
      urgency_label_by_score [of 7 fever_result "[]"]
      urgency_label_by_score [of 6 fever_result "[]"] s
    by (simp add: getUrgencyColor_def)
qed


section \<open>Red flags and the emergency alert\<close>

text \<open>
  Claim C2, at a concrete input: a result with one red flag of level \<open>urgent\<close> that the
  backend did not mark as an emergency. The Results view lists the red flag and shows no
  emergency alert, so a non-empty list of red flags is not by itself an escalation.
\<close>

theorem red_flags_without_emergency_alert:
  "red_flags fever_result \<noteq> [] \<and> \<not> emergency_detected fever_result
   \<and> \<not> shows_emergency_alert (Results (Some fever_result) [] False None)
   \<and> red_flag_entries (Results (Some fever_result) [] False None) = [urgent_flag]"
  by (simp add: fever_result_def shows_emergency_alert_def Results_def sections_of_def
      resultsPage_def truthy_opt_def emergencyAlert_def red_flag_entries_def)

text \<open>
  Claim C2, amended. On the page the Results view shows for a triage result, the
  EMERGENCY DETECTED alert (call 108) appears exactly when the result's
  \<open>emergency_detected\<close> is true; the red flags of the result are listed, one entry per
  flag and in order, whether the alert appears or not.
\<close>

theorem emergency_alert_iff_detected:
  "(shows_emergency_alert (Results (Some r) facs False None) \<longleftrightarrow> emergency_detected r)
   \<and> red_flag_entries (Results (Some r) facs False None) = red_flags r"
  by (simp add: shows_emergency_alert_def Results_def sections_of_def
      resultsPage_def truthy_opt_def emergencyAlert_def red_flag_entries_def)

theorem emergency_alert_iff_detected_witness:
  "shows_emergency_alert
     (Results (Some (fever_result\<lparr>emergency_detected := True\<rparr>)) [] False None)
   \<and> \<not> shows_emergency_alert (Results (Some fever_result) [] False None)"
  using emergency_alert_iff_detected [of "fever_result\<lparr>emergency_detected := True\<rparr>" "[]"]
    emergency_alert_iff_detected [of fever_result "[]"]
  by (simp add: fever_result_def)


section \<open>The two urgency badges\<close>

text \<open>
  Claim C4, at a concrete input: for the score 8 the Results view chooses yellow and the
  badge of \<open>AroviaHealthDesk\<close> chooses red.
\<close>

theorem renderers_differ_at_8:
  "colour_of_class (getUrgencyColor 8) = Some Yellow
   \<and> colour_of_class (deskUrgencyBadgeClass 8) = Some Red"
  by (simp add: getUrgencyColor_def deskUrgencyBadgeClass_def colour_of_class_def)

text \<open>
  Claim C4, amended. The Results view (thresholds 9 and 7) and the urgency badge of
  \<open>AroviaHealthDesk\<close> (thresholds 8 and 5) choose the same colour exactly for the scores
  that are at least 9, or at least 7 and below 8, or below 5. Among the whole scores from 1
  to 10 they agree on 1, 2, 3, 4, 7, 9 and 10 and differ on 5, 6 and 8.
\<close>

theorem renderers_agree_iff:
  "colour_of_class (getUrgencyColor s) = colour_of_class (deskUrgencyBadgeClass s)
   \<longleftrightarrow> (9 \<le> s \<or> (7 \<le> s \<and> s < 8) \<or> s < 5)"
  by (simp add: getUrgencyColor_def deskUrgencyBadgeClass_def colour_of_class_def)

theorem renderers_agree_iff_witness:
  "colour_of_class (getUrgencyColor 7) = colour_of_class (deskUrgencyBadgeClass 7)
   \<and> colour_of_class (getUrgencyColor 6) \<noteq> colour_of_class (deskUrgencyBadgeClass 6)"
  using renderers_agree_iff [of 7] renderers_agree_iff [of 6] by simp


section \<open>The facility cards of the Results view\<close>

lemma cards_of_resultsPage:
  "concat (map cards_of_section (resultsPage r facs))
     = map (\<lambda>(index, facility). resultsFacilityCard index facility) (enumerate 0 (take 3 facs))"
  by (simp add: resultsPage_def emergencyAlert_def)

lemma map_enumerate_nth:
  "map (\<lambda>(i, x). g i x) (enumerate 0 xs) = map (\<lambda>i. g i (xs ! i)) [0..<length xs]"
  by (rule nth_equalityI) (simp_all add: nth_enumerate_eq)

lemma facility_cards_shown:
  "facility_cards (Results (Some r) facs False None)
     = map (\<lambda>i. resultsFacilityCard i (facs ! i)) [0..<min (length facs) 3]"
proof -
  have "facility_cards (Results (Some r) facs False None)
          = map (\<lambda>i. resultsFacilityCard i (take 3 facs ! i)) [0..<length (take 3 facs)]"
    by (simp add: facility_cards_def Results_def sections_of_def truthy_opt_def
        cards_of_resultsPage map_enumerate_nth)
  also have "\<dots> = map (\<lambda>i. resultsFacilityCard i (facs ! i)) [0..<min (length facs) 3]"
    by (rule nth_equalityI) simp_all
  finally show ?thesis .
qed

lemma length_facility_cards_le:
  "length (facility_cards (Results tr facs ld er)) \<le> min (length facs) 3"
  by (simp add: facility_cards_def Results_def sections_of_def cards_of_resultsPage
      split: option.split)

text \<open>
  Claim C9. The page the Results view shows for a triage result carries one card for each
  of the first three facilities of the stored list, in list order: card \<open>i\<close> is the card of
  facility \<open>i\<close>, and there are exactly \<open>min (length, 3)\<close> of them. In every state of the
  view, also while loading or on an error, there are never more.
\<close>

theorem results_first_three_facilities:
  "facility_cards (Results (Some r) facs False None)
     = map (\<lambda>i. resultsFacilityCard i (facs ! i)) [0..<min (length facs) 3]
   \<and> length (facility_cards (Results (Some r) facs False None)) = min (length facs) 3
   \<and> length (facility_cards (Results tr facs ld er)) \<le> min (length facs) 3"
  using facility_cards_shown [of r facs] length_facility_cards_le [of tr facs ld er] by simp

theorem results_first_three_facilities_witness:
  "map card_name (facility_cards (Results (Some fever_result) four_clinics False None))
     = [lit ''A'', lit ''B'', lit ''C'']
   \<and> length (facility_cards (Results (Some fever_result) [clinic ''A'' 4] False None)) = 1"
  using results_first_three_facilities [of fever_result four_clinics None False None]
    results_first_three_facilities [of fever_result "[clinic ''A'' 4]" None False None]
  by (simp add: four_clinics_def resultsFacilityCard_def clinic_def upt_rec)


section \<open>Submitting symptoms\<close>

lemma blank_is_whitespace: "whitespace_only (lit ''   '')"
  by (simp add: whitespace_only_def lit_def isWhiteSpace_def)

lemma trim_fever: "trim (lit ''  fever and cough '') = lit ''fever and cough''"
  by (simp add: trim_def lit_def isWhiteSpace_def)

lemma trim_blank: "trim (lit '' '') = []"
  by (simp add: trim_def lit_def isWhiteSpace_def)

lemma fetch_facilities_triageResult:
  "triageResult (fst (fetch_facilities be l st)) = triageResult st"
  by (simp add: fetch_facilities_def catch_block_def split: fetch_result.split sum.split)

lemma fetch_facilities_requests:
  "snd (fetch_facilities be l st) = [facilities_request l]"
  by (simp add: fetch_facilities_def split: fetch_result.split sum.split)

lemma try_block_requests:
  "snd (try_block be st s loc) =
     (if triage_succeeded be s loc
      then (case opt_or_undefined loc of None \<Rightarrow> [triage_request s loc]
            | Some l \<Rightarrow> [triage_request s loc, facilities_request l])
      else [triage_request s loc])"
  by (simp add: try_block_def triage_succeeded_def fetch_facilities_requests
      split: fetch_result.split sum.split option.split prod.split)
    (metis fetch_facilities_requests snd_conv)

lemma handleTriageSubmit_requests:
  "snd (handleTriageSubmit be st s loc)
     = snd (try_block be (st\<lparr>loading := True, error := None\<rparr>) s loc)"
  by (simp add: handleTriageSubmit_def split_beta)

lemma handleTriageSubmit_first_request:
  "take 1 (snd (handleTriageSubmit be st s loc)) = [triage_request s loc]"
  by (simp add: handleTriageSubmit_requests try_block_requests split: option.split)

lemma try_block_stores:
  assumes "triage_text be (triage_request s loc) = Response True (Inr result)"
  shows "triageResult (fst (try_block be st s loc)) = Some result"
proof (cases "opt_or_undefined loc")
  case None
  with assms show ?thesis by (simp add: try_block_def)
next
  case (Some l)
  have "triageResult (fst (fetch_facilities be l (st\<lparr>triageResult := Some result\<rparr>))) = Some result"
    by (simp add: fetch_facilities_triageResult)
  with assms Some show ?thesis by (simp add: try_block_def split_beta)
qed

lemma handleTriageSubmit_stores:
  assumes "triage_text be (triage_request s loc) = Response True (Inr result)"
  shows "triageResult (fst (handleTriageSubmit be st s loc)) = Some result"
  using try_block_stores [OF assms, of "st\<lparr>loading := True, error := None\<rparr>"]
  by (simp add: handleTriageSubmit_def split_beta)

lemma form_request_explicit:
  "triage_request (trim s) (or_undefined (trim loc))
     = \<lparr>url = ''http://localhost:8000/triage/text'', req_method = POST,
        headers = [(''Content-Type'', ''application/json'')],
        body = JObject ((''symptoms'', JString (trim s))
                        # (if trim loc = [] then [] else [(''location'', JString (trim loc))]))\<rparr>"
  by (simp add: triage_request_def API_BASE_URL_def json_headers_def optional_member_def
      opt_or_undefined_def or_undefined_def truthy_def)

lemma run_effect_Navigate: "run_effect be (Navigate path) x = x"
  by (cases x) simp

lemma run_effect_OnSubmit:
  "run_effect be (OnSubmit s loc) (st, []) = handleTriageSubmit be st s loc"
  by (simp add: split_beta)

lemma run_form_TriageForm:
  "trim s \<noteq> [] \<Longrightarrow>
   run_form be st (TriageForm_handleSubmit s loc)
     = handleTriageSubmit be st (trim s) (or_undefined (trim loc))"
  by (simp add: run_form_def TriageForm_handleSubmit_def truthy_def run_effect_Navigate
      run_effect_OnSubmit del: run_effect.simps)

lemma run_form_Dashboard:
  "trim s \<noteq> [] \<Longrightarrow>
   run_form be st (Dashboard_handleSubmit s loc)
     = handleTriageSubmit be st (trim s) (or_undefined (trim loc))"
  by (simp add: run_form_def Dashboard_handleSubmit_def truthy_def run_effect_OnSubmit
      del: run_effect.simps)

text \<open>
  Claim C10. For a symptom text that is empty or consists of white space only, neither form
  calls its \<open>onSubmit\<close> prop, so the application state stays as it is and no request is
  issued; \<open>handleTextTriage\<close> of \<open>AroviaHealthDesk\<close> issues no request either and sets the
  error \<open>Please enter your symptoms\<close>, changing nothing else.
\<close>

theorem no_request_for_blank_symptoms:
  assumes "whitespace_only s"
  shows "TriageForm_handleSubmit s loc = [] \<and> Dashboard_handleSubmit s loc = []
     \<and> run_form be st (TriageForm_handleSubmit s loc) = (st, [])
     \<and> run_form be st (Dashboard_handleSubmit s loc) = (st, [])
     \<and> handleTextTriage parseFloat be (dst\<lparr>textSymptoms := s\<rparr>)
         = (dst\<lparr>textSymptoms := s, desk_error := Some (lit ''Please enter your symptoms'')\<rparr>, [])"
proof -
  from assms have "trim s = []" by (simp add: trim_Nil_iff)
  then show ?thesis
    by (simp add: TriageForm_handleSubmit_def Dashboard_handleSubmit_def run_form_def truthy_def
        handleTextTriage_def)
qed

theorem no_request_for_blank_symptoms_witness:
  "run_form answering_backend initial_state (TriageForm_handleSubmit (lit ''   '') (lit ''Mumbai''))
     = (initial_state, [])
   \<and> run_form answering_backend initial_state (Dashboard_handleSubmit (lit ''   '') (lit ''Mumbai''))
     = (initial_state, [])
   \<and> snd (handleTextTriage (\<lambda>t. None) answering_backend blank_desk) = []
   \<and> desk_error (fst (handleTextTriage (\<lambda>t. None) answering_backend blank_desk))
       = Some (lit ''Please enter your symptoms'')"
proof -
  have "blank_desk\<lparr>textSymptoms := lit ''   ''\<rparr> = blank_desk" by (simp add: blank_desk_def)
  with no_request_for_blank_symptoms [OF blank_is_whitespace,
      of "lit ''Mumbai''" answering_backend initial_state "\<lambda>t. None" blank_desk]
  show ?thesis by (simp add: run_form_def)
qed

text \<open>
  Claim C6. When the trimmed symptom text is not empty, a submission of either form makes
  \<open>handleTriageSubmit\<close> send, as its first request, a POST to \<open>/triage/text\<close> of the
  backend with the JSON content type, whose body holds the trimmed symptoms and, when the
  trimmed location is not empty, that location, and nothing else. When the response is ok
  and its body parses, the parsed body is the stored triage result afterwards.
\<close>

theorem form_forwards_trimmed_symptoms:
  assumes "trim s \<noteq> []"
    and "form = TriageForm_handleSubmit \<or> form = Dashboard_handleSubmit"
  shows "take 1 (snd (run_form be st (form s loc)))
           = [\<lparr>url = ''http://localhost:8000/triage/text'', req_method = POST,
               headers = [(''Content-Type'', ''application/json'')],
               body = JObject ((''symptoms'', JString (trim s))
                        # (if trim loc = [] then []
                           else [(''location'', JString (trim loc))]))\<rparr>]
         \<and> (triage_text be (triage_request (trim s) (or_undefined (trim loc)))
               = Response True (Inr result)
              \<longrightarrow> triageResult (fst (run_form be st (form s loc))) = Some result)"
proof -
  have "run_form be st (form s loc) = handleTriageSubmit be st (trim s) (or_undefined (trim loc))"
    using assms run_form_TriageForm run_form_Dashboard by metis
  then show ?thesis
    using handleTriageSubmit_first_request [of be st "trim s" "or_undefined (trim loc)"]
      handleTriageSubmit_stores [of be "trim s" "or_undefined (trim loc)" result st]
      form_request_explicit [of s loc]
    by simp
qed

theorem form_forwards_trimmed_symptoms_witness:
  "take 1 (snd (run_form answering_backend initial_state
                  (TriageForm_handleSubmit (lit ''  fever and cough '') (lit '' ''))))
     = [\<lparr>url = ''http://localhost:8000/triage/text'', req_method = POST,
         headers = [(''Content-Type'', ''application/json'')],
         body = JObject [(''symptoms'', JString (lit ''fever and cough''))]\<rparr>]
   \<and> triageResult (fst (run_form answering_backend initial_state
                  (TriageForm_handleSubmit (lit ''  fever and cough '') (lit '' ''))))
       = Some fever_result"
proof -
  have ne: "trim (lit ''  fever and cough '') \<noteq> []"
    unfolding trim_fever by (simp add: lit_def)
  have ok: "triage_text answering_backend rq = Response True (Inr fever_result)" for rq
    by (simp add: answering_backend_def)
  show ?thesis
    using form_forwards_trimmed_symptoms [OF ne, of TriageForm_handleSubmit answering_backend
        initial_state "lit '' ''" fever_result] ok
    by (simp add: trim_fever trim_blank)
qed

text \<open>
  Claim C8. When the response to the triage request is not ok, \<open>handleTriageSubmit\<close> ends
  with the error \<open>Failed to analyze symptoms\<close> and \<open>loading\<close> false, in a state that
  otherwise is the one it started from: the stored triage result and the facilities list
  are unchanged. The triage request is the only request issued: it is not retried.
\<close>

theorem failed_triage_only_sets_error:
  assumes "triage_text be (triage_request s loc) = Response False parsed"
  shows "handleTriageSubmit be st s loc
           = (st\<lparr>loading := False, error := Some (lit ''Failed to analyze symptoms'')\<rparr>,
              [triage_request s loc])
         \<and> triageResult (fst (handleTriageSubmit be st s loc)) = triageResult st
         \<and> facilities (fst (handleTriageSubmit be st s loc)) = facilities st"
  using assms by (simp add: handleTriageSubmit_def try_block_def catch_block_def)

theorem failed_triage_only_sets_error_witness:
  "handleTriageSubmit failing_backend
     (initial_state\<lparr>triageResult := Some fever_result, facilities := four_clinics\<rparr>)
     (lit ''fever'') (Some (lit ''Mumbai''))
   = (\<lparr>triageResult = Some fever_result, facilities = four_clinics, loading = False,
       error = Some (lit ''Failed to analyze symptoms'')\<rparr>,
      [triage_request (lit ''fever'') (Some (lit ''Mumbai''))])"
proof -
  have "triage_text failing_backend (triage_request (lit ''fever'') (Some (lit ''Mumbai'')))
          = Response False (Inl (Error (lit ''Internal Server Error'')))"
    by (simp add: failing_backend_def)
  from failed_triage_only_sets_error [OF this,
      of "initial_state\<lparr>triageResult := Some fever_result, facilities := four_clinics\<rparr>"]
  show ?thesis by (simp add: initial_state_def)
qed


section \<open>Requesting the facilities\<close>

lemma facilities_requested_iff:
  "facilities_requested (snd (handleTriageSubmit be st s loc))
     \<longleftrightarrow> truthy_opt loc \<and> triage_succeeded be s loc"
  by (simp add: handleTriageSubmit_requests try_block_requests facilities_requested_def
      triage_request_def facilities_request_def API_BASE_URL_def opt_or_undefined_def
      or_undefined_def truthy_opt_def split: option.split)

lemma not_truthy_opt_undefined: "\<not> truthy_opt loc \<Longrightarrow> opt_or_undefined loc = None"
  by (cases loc) (auto simp: truthy_opt_def opt_or_undefined_def or_undefined_def)

lemma try_block_facilities_no_location:
  "\<not> truthy_opt loc \<Longrightarrow> facilities (fst (try_block be st s loc)) = facilities st"
  by (simp add: try_block_def catch_block_def not_truthy_opt_undefined
      split: fetch_result.split sum.split)

text \<open>
  Claim C7, at a concrete input: a submission with the location \<open>Mumbai\<close> whose triage
  request is answered with an error status. A location was provided, and no request to
  the facilities endpoint is issued.
\<close>

theorem no_facilities_request_after_failed_triage:
  "truthy_opt (Some (lit ''Mumbai''))
   \<and> \<not> facilities_requested
        (snd (handleTriageSubmit failing_backend initial_state (lit ''fever'')
               (Some (lit ''Mumbai''))))"
  by (simp add: handleTriageSubmit_requests try_block_requests triage_succeeded_def
      failing_backend_def facilities_requested_def triage_request_def API_BASE_URL_def
      truthy_opt_def truthy_def lit_def)

text \<open>
  Claim C7, amended. A text-triage submission requests the facilities list from the
  \<open>/facilities\<close> endpoint exactly when a non-empty location was provided and the triage
  request before it succeeded, that is, got an ok response whose body parsed. When no
  location is given, the stored facilities list is left unchanged.
\<close>

theorem facilities_requested_after_triage:
  "(facilities_requested (snd (handleTriageSubmit be st s loc))
      \<longleftrightarrow> truthy_opt loc \<and> triage_succeeded be s loc)
   \<and> (\<not> truthy_opt loc \<longrightarrow> facilities (fst (handleTriageSubmit be st s loc)) = facilities st)"
  using facilities_requested_iff [of be st s loc]
    try_block_facilities_no_location [of loc be "st\<lparr>loading := True, error := None\<rparr>" s]
  by (simp add: handleTriageSubmit_def split_beta)

theorem facilities_requested_after_triage_witness:
  "facilities_requested
     (snd (handleTriageSubmit answering_backend initial_state (lit ''fever'') (Some (lit ''Mumbai''))))
   \<and> \<not> facilities_requested
        (snd (handleTriageSubmit failing_backend initial_state (lit ''fever'') (Some (lit ''Mumbai''))))
   \<and> facilities (fst (handleTriageSubmit answering_backend initial_state (lit ''fever'') None)) = []"
  using facilities_requested_after_triage [of answering_backend initial_state "lit ''fever''"
      "Some (lit ''Mumbai'')"]
    facilities_requested_after_triage [of failing_backend initial_state "lit ''fever''"
      "Some (lit ''Mumbai'')"]
    facilities_requested_after_triage [of answering_backend initial_state "lit ''fever''" None]
  by (simp add: triage_succeeded_def answering_backend_def failing_backend_def truthy_opt_def
      truthy_def lit_def initial_state_def)


section \<open>The order of the facilities\<close>

lemma displayed_cards_Facilities:
  "displayed_cards (Facilities st False)
     = map (\<lambda>i. facilityCard i (filteredFacilities st ! i)) [0..<length (filteredFacilities st)]"
  by (simp add: displayed_cards_def Facilities_def map_enumerate_nth)

lemma card_distances:
  "map fc_distance_km (displayed_cards (Facilities st False))
     = map distance_km (filteredFacilities st)"
  unfolding displayed_cards_Facilities
  by (rule nth_equalityI) (simp_all add: facilityCard_def)

lemma card_recommended:
  "i < length (filteredFacilities st) \<Longrightarrow>
   fc_recommended (displayed_cards (Facilities st False) ! i) \<longleftrightarrow> i = 0"
  unfolding displayed_cards_Facilities by (simp add: facilityCard_def)

lemma handleSearch_stores:
  assumes "\<not> whitespace_only (searchLocation st)"
    and "facilities_endpoint be (search_request (searchLocation st)) = Response True (Inr data)"
  shows "filteredFacilities (fst (handleSearch be st)) = data"
  using assms by (simp add: handleSearch_def truthy_def trim_Nil_iff)

lemma sorted_head_least:
  "sorted xs \<Longrightarrow> x \<in> set xs \<Longrightarrow> hd xs \<le> x"
  by (cases xs) auto

lemma cards_after_search_eq:
  assumes "\<not> whitespace_only (searchLocation st)"
    and "facilities_endpoint be (search_request (searchLocation st)) = Response True (Inr data)"
  shows "map fc_distance_km (cards_after_search be st) = map distance_km data"
    and "map fc_name (cards_after_search be st) = map Facility.name data"
    and "length (cards_after_search be st) = length data"
    and "i < length data \<Longrightarrow> fc_recommended (cards_after_search be st ! i) \<longleftrightarrow> i = 0"
proof -
  have st: "filteredFacilities (fst (handleSearch be st)) = data"
    using assms by (rule handleSearch_stores)
  show "map fc_distance_km (cards_after_search be st) = map distance_km data"
    unfolding cards_after_search_def card_distances st ..
  show "map fc_name (cards_after_search be st) = map Facility.name data"
    unfolding cards_after_search_def displayed_cards_Facilities st
    by (rule nth_equalityI) (simp_all add: facilityCard_def)
  show "length (cards_after_search be st) = length data"
    unfolding cards_after_search_def displayed_cards_Facilities st by simp
  show "i < length data \<Longrightarrow> fc_recommended (cards_after_search be st ! i) \<longleftrightarrow> i = 0"
    unfolding cards_after_search_def using card_recommended [of i "fst (handleSearch be st)"] st
    by simp
qed
lemma Mumbai_not_blank: "\<not> whitespace_only (lit ''Mumbai'')"
  by (simp add: whitespace_only_def lit_def isWhiteSpace_def)

text \<open>
  Claim C5. When the facilities endpoint answers a search with the list the facility
  search produced, the cards of the Facilities page are in non-decreasing order of
  distance, they are the facilities found, only the first card is marked Recommended, and
  the first card is at most as far as any facility found: it is the nearest.
\<close>

theorem facilities_sorted_by_distance:
  assumes "\<not> whitespace_only (searchLocation st)"
    and "facilities_endpoint be (search_request (searchLocation st))
           = Response True (Inr (facility_search found))"
  shows "sorted (map fc_distance_km (cards_after_search be st))
     \<and> mset (map fc_name (cards_after_search be st)) = mset (map Facility.name found)
     \<and> (\<forall>i < length (cards_after_search be st).
           fc_recommended (cards_after_search be st ! i) \<longleftrightarrow> i = 0)
     \<and> (\<forall>f \<in> set found. fc_distance_km (hd (cards_after_search be st)) \<le> distance_km f)"
proof -
  note eqs = cards_after_search_eq [OF assms]
  have srt: "sorted (map fc_distance_km (cards_after_search be st))"
    by (simp add: eqs(1) facility_search_def)
  have names: "mset (map fc_name (cards_after_search be st)) = mset (map Facility.name found)"
    unfolding eqs(2) facility_search_def by (metis mset_map mset_sort)
  have rec: "\<forall>i < length (cards_after_search be st).
           fc_recommended (cards_after_search be st ! i) \<longleftrightarrow> i = 0"
    using eqs(3,4) by simp
  have nearest: "fc_distance_km (hd (cards_after_search be st)) \<le> distance_km f"
    if "f \<in> set found" for f
  proof -
    from that have "distance_km f \<in> set (map fc_distance_km (cards_after_search be st))"
      by (simp add: eqs(1) facility_search_def)
    with srt have "hd (map fc_distance_km (cards_after_search be st)) \<le> distance_km f"
      by (rule sorted_head_least)
    moreover have "cards_after_search be st \<noteq> []"
      using that eqs(3) by (auto simp: facility_search_def)
    ultimately show ?thesis by (simp add: hd_map)
  qed
  from srt names rec nearest show ?thesis by blast
qed

theorem facilities_sorted_by_distance_witness:
  "\<not> whitespace_only (lit ''Mumbai'')
   \<and> sorted (map fc_distance_km
        (cards_after_search (searching_backend four_clinics)
           \<lparr>searchLocation = lit ''Mumbai'', filteredFacilities = []\<rparr>))
   \<and> fc_distance_km (hd (cards_after_search (searching_backend four_clinics)
           \<lparr>searchLocation = lit ''Mumbai'', filteredFacilities = []\<rparr>))
       \<le> distance_km (clinic ''B'' 1)"
proof -
  have h1: "\<not> whitespace_only
     (searchLocation \<lparr>searchLocation = lit ''Mumbai'', filteredFacilities = []\<rparr>)"
    using Mumbai_not_blank by simp
  have h2: "facilities_endpoint (searching_backend four_clinics)
      (search_request (searchLocation \<lparr>searchLocation = lit ''Mumbai'', filteredFacilities = []\<rparr>))
      = Response True (Inr (facility_search four_clinics))"
    by (simp add: searching_backend_def)
  have "clinic ''B'' 1 \<in> set four_clinics" by (simp add: four_clinics_def)
  with facilities_sorted_by_distance [OF h1 h2] Mumbai_not_blank show ?thesis by blast
qed


end
